theory Spec2Isabelle
  imports Main
begin

section \<open>Values of the host language\<close>

text \<open>
  The store of \<^verbatim>\<open>src/stores/user.ts\<close> holds whatever value it is handed: a user record
  from an API response, or whatever \<^verbatim>\<open>JSON.parse\<close> returns for a stored text.  Values are
  therefore the JSON values together with \<^verbatim>\<open>undefined\<close>.  Numbers are the integers
  (the only number of a \<^verbatim>\<open>UserInfo\<close> is its \<^verbatim>\<open>id\<close>); the store never computes with them.
\<close>

datatype jsval =
    JUndefined
  | JNull
  | JBool bool
  | JNum int
  | JStr string
  | JArr "jsval list"
  | JObj "(string \<times> jsval) list"

text \<open>
  The conversion to a boolean that \<^verbatim>\<open>if (user)\<close> and \<^verbatim>\<open>isAuthenticated && user\<close>
  apply: \<^verbatim>\<open>undefined\<close>, \<^verbatim>\<open>null\<close>, \<^verbatim>\<open>false\<close>, \<^verbatim>\<open>0\<close> and the empty string are
  falsy, every other value (every array and every object) is truthy.
\<close>

fun truthy :: "jsval \<Rightarrow> bool" where
  "truthy JUndefined = False"
| "truthy JNull = False"
| "truthy (JBool b) = b"
| "truthy (JNum n) = (n \<noteq> 0)"
| "truthy (JStr s) = (s \<noteq> [])"
| "truthy (JArr xs) = True"
| "truthy (JObj fs) = True"

text \<open>The same conversion for an optional string (\<^verbatim>\<open>getItem\<close>'s result, \<^verbatim>\<open>data.refresh\<close>).\<close>

fun truthy_text :: "string option \<Rightarrow> bool" where
  "truthy_text None = False"
| "truthy_text (Some t) = (t \<noteq> [])"

text \<open>
  \<^verbatim>\<open>interface UserInfo\<close> (lines 7 to 15): an object with four required members and three
  optional ones, which are left out when absent.
\<close>

definition optional_member :: "string \<Rightarrow> string option \<Rightarrow> (string \<times> jsval) list" where
  "optional_member k v = (case v of None \<Rightarrow> [] | Some t \<Rightarrow> [(k, JStr t)])"

definition UserInfo ::
  "int \<Rightarrow> string \<Rightarrow> string \<Rightarrow> string \<Rightarrow> string option \<Rightarrow> string option \<Rightarrow> string option \<Rightarrow> jsval"
where
  "UserInfo ident username email full_name avatar last_login updated_at =
     JObj ([(''id'', JNum ident), (''username'', JStr username), (''email'', JStr email),
            (''full_name'', JStr full_name)]
           @ optional_member ''avatar'' avatar
           @ optional_member ''last_login'' last_login
           @ optional_member ''updated_at'' updated_at)"

section \<open>The platform\<close>

text \<open>
  \<^verbatim>\<open>JSON.parse\<close>, \<^verbatim>\<open>JSON.stringify\<close> and \<^verbatim>\<open>Date.prototype.toUTCString\<close> belong to the
  browser, not to the repository: they are parameters of the model, and every theorem
  holds for all of them.  \<open>parse\<close> returns \<open>None\<close> where \<^verbatim>\<open>JSON.parse\<close> throws.
\<close>

record platform =
  parse :: "string \<Rightarrow> jsval option"
  stringify :: "jsval \<Rightarrow> string"
  toUTCString :: "int \<Rightarrow> string"

text \<open>
  Two facts of the platform are fixed, because the store's control flow meets them:
  the empty text is not a JSON text (\<^verbatim>\<open>JSON.parse('')\<close> throws a \<^verbatim>\<open>SyntaxError\<close>), and
  \<^verbatim>\<open>JSON.stringify(undefined)\<close> is \<^verbatim>\<open>undefined\<close>, which \<^verbatim>\<open>setItem\<close> stores as the
  text \<^verbatim>\<open>undefined\<close>.
\<close>

definition JSON_parse :: "platform \<Rightarrow> string \<Rightarrow> jsval option" where
  "JSON_parse P t = (if t = [] then None else parse P t)"

definition JSON_stringify :: "platform \<Rightarrow> jsval \<Rightarrow> string" where
  "JSON_stringify P v = (if v = JUndefined then ''undefined'' else stringify P v)"

text \<open>
  A storage scope (\<^verbatim>\<open>localStorage\<close>, \<^verbatim>\<open>sessionStorage\<close>) is a map from keys to texts;
  \<^verbatim>\<open>getItem\<close> returns \<^verbatim>\<open>null\<close> (here \<open>None\<close>) for a missing key.  The three calls
  are taken to succeed: a browser that refuses storage (a quota or a security error) is
  outside the model.
\<close>

type_synonym storage = "string \<rightharpoonup> string"

definition getItem :: "string \<Rightarrow> storage \<Rightarrow> string option" where
  "getItem k m = m k"

definition setItem :: "string \<Rightarrow> string \<Rightarrow> storage \<Rightarrow> storage" where
  "setItem k v m = m(k \<mapsto> v)"

definition removeItem :: "string \<Rightarrow> storage \<Rightarrow> storage" where
  "removeItem k m = m(k := None)"

text \<open>
  An awaited call either resolves with a value, or its promise is rejected, or the call
  throws before it returns a promise.
\<close>

datatype exn = Error string

datatype 'a outcome = Resolves 'a | Rejects exn | Throws exn

section \<open>The store\<close>

text \<open>
  The three refs of the store (lines 19 to 21), the two storage scopes, and the texts
  assigned to \<^verbatim>\<open>document.cookie\<close>, oldest first.  \<open>notices\<close> counts the calls of
  \<^verbatim>\<open>successMsg\<close> that returned, \<open>pushed\<close> lists the paths given to \<^verbatim>\<open>router.push\<close>.
\<close>

record store =
  userInfo :: jsval
  loginStatus :: bool
  isLoading :: bool
  localStorage :: storage
  sessionStorage :: storage
  cookie :: "string list"
  notices :: nat
  pushed :: "string list"

definition assign_cookie :: "string \<Rightarrow> store \<Rightarrow> store" where
  "assign_cookie c s = s\<lparr>cookie := cookie s @ [c]\<rparr>"

text \<open>
  \<^verbatim>\<open>updateUserState\<close>, lines 29 to 46.  The default \<^verbatim>\<open>status = true\<close> applies when
  the second argument is left out (\<open>None\<close>).
\<close>

definition updateUserState :: "platform \<Rightarrow> jsval \<Rightarrow> bool option \<Rightarrow> store \<Rightarrow> store" where
  "updateUserState P user status s =
     (let s1 = s\<lparr>userInfo := user,
                 loginStatus := (case status of None \<Rightarrow> True | Some b \<Rightarrow> b)\<rparr> in
      if truthy user then
        s1\<lparr>localStorage :=
              setItem ''loginStatus'' ''true''
                (setItem ''userInfo'' (JSON_stringify P user) (localStorage s1)),
            sessionStorage :=
              setItem ''loginStatus'' ''true''
                (setItem ''userInfo'' (JSON_stringify P user) (sessionStorage s1))\<rparr>
      else
        s1\<lparr>localStorage :=
              removeItem ''loginStatus'' (removeItem ''userInfo'' (localStorage s1)),
            sessionStorage :=
              removeItem ''loginStatus'' (removeItem ''userInfo'' (sessionStorage s1))\<rparr>)"

text \<open>
  \<^verbatim>\<open>initializeUserState\<close>, lines 49 to 83.  A parse failure in the first \<^verbatim>\<open>try\<close> falls
  through to the persistent scope; one in the second removes the two persistent keys
  and leaves the refs as they are.
\<close>

definition initializeUserState :: "platform \<Rightarrow> store \<Rightarrow> store" where
  "initializeUserState P s =
     (let sessionUserInfo = getItem ''userInfo'' (sessionStorage s);
          sessionLoginStatus = getItem ''loginStatus'' (sessionStorage s);
          fromSession =
            (case sessionUserInfo of
               None \<Rightarrow> None
             | Some t \<Rightarrow>
                 if truthy_text (Some t) \<and> sessionLoginStatus = Some ''true''
                 then JSON_parse P t else None)
      in case fromSession of
           Some parsedUserInfo \<Rightarrow> updateUserState P parsedUserInfo (Some True) s
         | None \<Rightarrow>
             (let localUserInfo = getItem ''userInfo'' (localStorage s);
                  localLoginStatus = getItem ''loginStatus'' (localStorage s)
              in case localUserInfo of
                   None \<Rightarrow> updateUserState P JNull (Some False) s
                 | Some t \<Rightarrow>
                     if truthy_text (Some t) \<and> localLoginStatus = Some ''true'' then
                       (case JSON_parse P t of
                          Some parsedUserInfo \<Rightarrow> updateUserState P parsedUserInfo (Some True) s
                        | None \<Rightarrow>
                            s\<lparr>localStorage :=
                                 removeItem ''loginStatus''
                                   (removeItem ''userInfo'' (localStorage s))\<rparr>)
                     else updateUserState P JNull (Some False) s))"

text \<open>
  The store as \<^verbatim>\<open>defineStore\<close>'s setup function leaves it (lines 17 to 21 and 192):
  fresh refs over the browser's storage and cookies, then \<^verbatim>\<open>initializeUserState()\<close>.
  The setup function does not return \<^verbatim>\<open>initializeUserState\<close>, so this is its only call.
\<close>

definition fresh :: "storage \<Rightarrow> storage \<Rightarrow> string list \<Rightarrow> store" where
  "fresh ls ss ck =
     \<lparr>userInfo = JNull, loginStatus = False, isLoading = False,
      localStorage = ls, sessionStorage = ss, cookie = ck, notices = 0, pushed = []\<rparr>"

definition useUserStore :: "platform \<Rightarrow> storage \<Rightarrow> storage \<Rightarrow> string list \<Rightarrow> store" where
  "useUserStore P ls ss ck = initializeUserState P (fresh ls ss ck)"

subsection \<open>Session check and the direct setter\<close>

text \<open>
  Modelled from the spec: the response type of \<^verbatim>\<open>apiUserCheckSignin\<close>, declared outside
  the sources; the spec gives \<^verbatim>\<open>{success: bool, isAuthenticated: bool, user?}\<close>.  The
  three arguments are the three names line 137 destructures; a missing \<^verbatim>\<open>user\<close> is
  \<open>JUndefined\<close>.
\<close>

datatype check_response = CheckResponse bool bool jsval

text \<open>\<^verbatim>\<open>checkLoginStatus\<close>, lines 134 to 153: every failure is caught and answered \<^verbatim>\<open>false\<close>.\<close>

definition checkLoginStatus :: "check_response outcome \<Rightarrow> store \<Rightarrow> (exn + bool) \<times> store" where
  "checkLoginStatus apiUserCheckSignin s =
     (case apiUserCheckSignin of
        Resolves (CheckResponse success isAuthenticated user) \<Rightarrow>
          (let s1 = s\<lparr>loginStatus := isAuthenticated\<rparr>;
               s2 = (if isAuthenticated \<and> truthy user
                     then s1\<lparr>userInfo := user\<rparr> else s1\<lparr>userInfo := JNull\<rparr>)
           in (Inr isAuthenticated, s2))
      | Rejects e \<Rightarrow> (Inr False, s\<lparr>loginStatus := False, userInfo := JNull\<rparr>)
      | Throws e \<Rightarrow> (Inr False, s\<lparr>loginStatus := False, userInfo := JNull\<rparr>))"

text \<open>
  \<^verbatim>\<open>setLoginStatus\<close>, lines 156 to 159.  The default \<^verbatim>\<open>user = null\<close> applies when the
  argument is left out, that is, is \<^verbatim>\<open>undefined\<close>.
\<close>

definition setLoginStatus :: "bool \<Rightarrow> jsval \<Rightarrow> store \<Rightarrow> store" where
  "setLoginStatus status user s =
     s\<lparr>loginStatus := status, userInfo := (if user = JUndefined then JNull else user)\<rparr>"

subsection \<open>Sign-in\<close>

text \<open>
  Modelled from the spec: the response type of \<^verbatim>\<open>apiUserSignin\<close>, whose declaration
  (\<^verbatim>\<open>utils/api\<close>) is not among the sources.  The spec gives
  \<^verbatim>\<open>{success: bool, data: {token, refresh?, user}}\<close>; \<open>signin_response\<close> is the
  \<^verbatim>\<open>responseData\<close> of line 96.  A response whose members cannot be read (the
  destructuring or a member access raises inside the \<^verbatim>\<open>try\<close>) is a \<open>Throws\<close>.
\<close>

record signin_payload =
  token :: string
  refresh :: "string option"
  user :: jsval

record signin_response =
  success :: bool
  data :: signin_payload

record credentials =
  username :: string
  password :: string
  rememberMe :: "bool option"

text \<open>What a call of \<^verbatim>\<open>signin\<close> meets: the answer of the API and the clock.\<close>

record signin_env =
  apiUserSignin :: "string \<Rightarrow> string \<Rightarrow> signin_response outcome"
  now :: int

text \<open>
  \<^verbatim>\<open>signin\<close>, lines 86 to 131.  The result is \<open>Inr\<close> the returned boolean or \<open>Inl\<close> the
  rethrown error; \<^verbatim>\<open>finally\<close> clears \<open>isLoading\<close> on every path.  The pause of 100 ms
  (line 119) changes no state and is left out.
\<close>

definition signin :: "platform \<Rightarrow> signin_env \<Rightarrow> credentials \<Rightarrow> store \<Rightarrow> (exn + bool) \<times> store" where
  "signin P E d s =
     (let s1 = s\<lparr>isLoading := True\<rparr> in
      case apiUserSignin E (username d) (password d) of
        Throws e \<Rightarrow> (Inl e, s1\<lparr>isLoading := False\<rparr>)
      | Rejects e \<Rightarrow> (Inl e, s1\<lparr>isLoading := False\<rparr>)
      | Resolves responseData \<Rightarrow>
          if success responseData then
            (let expires =
                   (if rememberMe d = Some True
                    then toUTCString P (now E + 30 * 24 * 60 * 60 * 1000) else []);
                 s2 = assign_cookie
                        (''token='' @ token (data responseData) @ '';path=/;expires='' @ expires) s1;
                 s3 = (case refresh (data responseData) of
                         None \<Rightarrow> s2
                       | Some r \<Rightarrow>
                           if truthy_text (Some r)
                           then assign_cookie
                                  (''refresh_token='' @ r @ '';path=/;expires='' @ expires) s2
                           else s2);
                 s4 = updateUserState P (user (data responseData)) (Some True) s3;
                 s5 = s4\<lparr>sessionStorage :=
                           setItem ''loginStatus'' ''true''
                             (setItem ''userInfo''
                                (JSON_stringify P (user (data responseData)))
                                (sessionStorage s4))\<rparr>
             in (Inr True, s5\<lparr>isLoading := False\<rparr>))
          else (Inr False, s1\<lparr>isLoading := False\<rparr>))"

subsection \<open>Sign-out\<close>

text \<open>
  What a call of \<^verbatim>\<open>logout\<close> meets: the sign-out API, whose promise is not awaited, and the
  two calls after it, each of which returns (\<open>None\<close>) or throws.
\<close>

record logout_env =
  apiUserLogout :: "unit outcome"
  successMsg :: "exn option"
  router_push :: "exn option"

text \<open>
  \<^verbatim>\<open>logout\<close>, lines 162 to 189.  The state is cleared and the cookies are expired before
  the first call that can throw; a rejected promise of \<^verbatim>\<open>apiUserLogout()\<close> is swallowed
  by its \<^verbatim>\<open>.catch\<close>, and the \<^verbatim>\<open>catch\<close> block of the function returns \<^verbatim>\<open>true\<close> as well.
\<close>

definition logout :: "platform \<Rightarrow> logout_env \<Rightarrow> store \<Rightarrow> (exn + bool) \<times> store" where
  "logout P E s =
     (let s1 = updateUserState P JNull (Some False) s;
          s2 = assign_cookie ''token=;expires=Thu, 01 Jan 1970 00:00:00 GMT;path=/'' s1;
          s3 = assign_cookie ''refresh_token=;expires=Thu, 01 Jan 1970 00:00:00 GMT;path=/'' s2;
          s4 = assign_cookie ''sessionid=;expires=Thu, 01 Jan 1970 00:00:00 GMT;path=/'' s3
      in case apiUserLogout E of
           Throws e \<Rightarrow> (Inr True, s4)
         | _ \<Rightarrow>
             (case successMsg E of
                Some e \<Rightarrow> (Inr True, s4)
              | None \<Rightarrow>
                  (let s5 = s4\<lparr>notices := Suc (notices s4)\<rparr> in
                   case router_push E of
                     Some e \<Rightarrow> (Inr True, s5)
                   | None \<Rightarrow> (Inr True, s5\<lparr>pushed := pushed s5 @ [''/'']\<rparr>))))"

section \<open>Sequences of operations\<close>

text \<open>
  The operations the setup function returns (lines 194 to 204), each with what its call
  meets, and \<^verbatim>\<open>initializeUserState\<close>, which the setup function itself calls.
\<close>

datatype operation =
    Signin signin_env credentials
  | Logout logout_env
  | CheckLoginStatus "check_response outcome"
  | SetLoginStatus bool jsval
  | UpdateUserState jsval "bool option"
  | InitializeUserState

fun exec :: "platform \<Rightarrow> operation \<Rightarrow> store \<Rightarrow> store" where
  "exec P (Signin E d) s = snd (signin P E d s)"
| "exec P (Logout E) s = snd (logout P E s)"
| "exec P (CheckLoginStatus api) s = snd (checkLoginStatus api s)"
| "exec P (SetLoginStatus status u) s = setLoginStatus status u s"
| "exec P (UpdateUserState u status) s = updateUserState P u status s"
| "exec P InitializeUserState s = initializeUserState P s"

fun run :: "platform \<Rightarrow> operation list \<Rightarrow> store \<Rightarrow> store" where
  "run P [] s = s"
| "run P (x # xs) s = run P xs (exec P x s)"

section \<open>Conditions and invariants\<close>

text \<open>
  The condition of the restore rule: a scope holds a \<^verbatim>\<open>userInfo\<close> text that parses and
  the flag \<^verbatim>\<open>true\<close>.  \<open>restorable P m\<close> is the parsed value, if so.
\<close>

definition restorable :: "platform \<Rightarrow> storage \<Rightarrow> jsval option" where
  "restorable P m =
     (case getItem ''userInfo'' m of
        None \<Rightarrow> None
      | Some t \<Rightarrow> if getItem ''loginStatus'' m = Some ''true'' then JSON_parse P t else None)"

text \<open>The invariant of the session state: an authenticated store has a user.\<close>

definition invariant :: "store \<Rightarrow> bool" where
  "invariant s = (loginStatus s \<longrightarrow> truthy (userInfo s))"

text \<open>
  A call is consistent when it does not itself pair \<^verbatim>\<open>true\<close> with an absent user: the
  setters are not handed one, the APIs do not answer one, and \<^verbatim>\<open>initializeUserState\<close>
  does not find one in the scope it restores from.
\<close>

fun consistent :: "platform \<Rightarrow> store \<Rightarrow> operation \<Rightarrow> bool" where
  "consistent P s (Signin E d) =
     (case apiUserSignin E (username d) (password d) of
        Resolves r \<Rightarrow> success r \<longrightarrow> truthy (user (data r))
      | Rejects e \<Rightarrow> True
      | Throws e \<Rightarrow> True)"
| "consistent P s (Logout E) = True"
| "consistent P s (CheckLoginStatus api) =
     (case api of
        Resolves (CheckResponse su ia u) \<Rightarrow> ia \<longrightarrow> truthy u
      | Rejects e \<Rightarrow> True
      | Throws e \<Rightarrow> True)"
| "consistent P s (SetLoginStatus status u) = (status \<longrightarrow> truthy u)"
| "consistent P s (UpdateUserState u status) = (status \<noteq> Some False \<longrightarrow> truthy u)"
| "consistent P s InitializeUserState =
     (case restorable P (sessionStorage s) of
        Some v \<Rightarrow> truthy v
      | None \<Rightarrow> (case restorable P (localStorage s) of Some v \<Rightarrow> truthy v | None \<Rightarrow> True))"

fun admissible :: "platform \<Rightarrow> store \<Rightarrow> operation list \<Rightarrow> bool" where
  "admissible P s [] = True"
| "admissible P s (x # xs) = (consistent P s x \<and> admissible P (exec P x s) xs)"

section \<open>Sample inputs\<close>

text \<open>
  For the examples below: a platform that agrees with a browser on the texts and values
  the examples use.  \<^verbatim>\<open>JSON.parse\<close> reads \<^verbatim>\<open>null\<close> as \<^verbatim>\<open>null\<close> and \<^verbatim>\<open>{}\<close> as the
  empty object, and throws on \<^verbatim>\<open>{\<close>; \<^verbatim>\<open>JSON.stringify\<close> writes them back; thirty days
  after the epoch is Saturday, 31 January 1970.
\<close>

definition sample_platform :: platform where
  "sample_platform =
     \<lparr>parse = map_of [(''null'', JNull), (''{}'', JObj [])],
      stringify = (\<lambda>v. if v = JNull then ''null'' else if v = JObj [] then ''{}'' else ''?''),
      toUTCString =
        (\<lambda>t. if t = 2592000000 then ''Sat, 31 Jan 1970 00:00:00 GMT'' else ''?'')\<rparr>"

definition empty_storage :: storage where
  "empty_storage = Map.empty"

text \<open>A scope holding the text \<open>t\<close> under \<^verbatim>\<open>userInfo\<close> and the flag \<^verbatim>\<open>true\<close>.\<close>

definition mirror_of :: "string \<Rightarrow> storage" where
  "mirror_of t = setItem ''loginStatus'' ''true'' (setItem ''userInfo'' t empty_storage)"

definition sample_credentials :: "bool option \<Rightarrow> credentials" where
  "sample_credentials remember = \<lparr>username = ''a'', password = ''b'', rememberMe = remember\<rparr>"

text \<open>A sign-in API that accepts, with or without a refresh value, and one that refuses.\<close>

definition accepting :: "string option \<Rightarrow> signin_env" where
  "accepting r =
     \<lparr>apiUserSignin =
        (\<lambda>u p. Resolves \<lparr>success = True, data = \<lparr>token = ''t'', refresh = r, user = JObj []\<rparr>\<rparr>),
      now = 0\<rparr>"

definition refusing :: signin_env where
  "refusing =
     \<lparr>apiUserSignin =
        (\<lambda>u p. Resolves \<lparr>success = False, data = \<lparr>token = [], refresh = None, user = JNull\<rparr>\<rparr>),
      now = 0\<rparr>"

text \<open>A sign-in API that answers \<open>success = true\<close> with \<^verbatim>\<open>null\<close> in the place of the user.\<close>

definition userless :: signin_env where
  "userless =
     \<lparr>apiUserSignin =
        (\<lambda>u p. Resolves \<lparr>success = True, data = \<lparr>token = ''t'', refresh = None, user = JNull\<rparr>\<rparr>),
      now = 0\<rparr>"

text \<open>A sign-out whose API call throws, and a store that is signed in.\<close>

definition failing_logout :: logout_env where
  "failing_logout =
     \<lparr>apiUserLogout = Throws (Error ''offline''), successMsg = None, router_push = None\<rparr>"

definition signed_in :: store where
  "signed_in =
     \<lparr>userInfo = JObj [], loginStatus = True, isLoading = False,
      localStorage = mirror_of ''{}'', sessionStorage = mirror_of ''{}'',
      cookie = [''token=t;path=/;expires=''], notices = 0, pushed = []\<rparr>"

section \<open>The persisted mirror\<close>

lemmas storage_defs = getItem_def setItem_def removeItem_def

lemmas sample_defs =
  sample_platform_def empty_storage_def mirror_of_def sample_credentials_def
  accepting_def refusing_def failing_logout_def signed_in_def

lemma updateUserState_refs:
  "userInfo (updateUserState P u status s) = u"
  "loginStatus (updateUserState P u status s) = (case status of None \<Rightarrow> True | Some b \<Rightarrow> b)"
  "isLoading (updateUserState P u status s) = isLoading s"
  "cookie (updateUserState P u status s) = cookie s"
  by (simp_all add: updateUserState_def Let_def)

lemma updateUserState_written:
  assumes "truthy u"
  shows "getItem ''userInfo'' (localStorage (updateUserState P u status s)) = Some (JSON_stringify P u)"
    and "getItem ''loginStatus'' (localStorage (updateUserState P u status s)) = Some ''true''"
    and "getItem ''userInfo'' (sessionStorage (updateUserState P u status s)) = Some (JSON_stringify P u)"
    and "getItem ''loginStatus'' (sessionStorage (updateUserState P u status s)) = Some ''true''"
  using assms by (simp_all add: updateUserState_def Let_def storage_defs)

lemma updateUserState_removed:
  assumes "\<not> truthy u"
  shows "getItem ''userInfo'' (localStorage (updateUserState P u status s)) = None"
    and "getItem ''loginStatus'' (localStorage (updateUserState P u status s)) = None"
    and "getItem ''userInfo'' (sessionStorage (updateUserState P u status s)) = None"
    and "getItem ''loginStatus'' (sessionStorage (updateUserState P u status s)) = None"
  using assms by (simp_all add: updateUserState_def Let_def storage_defs)

text \<open>Every value of the interface \<^verbatim>\<open>UserInfo\<close> is an object, so it counts as present.\<close>

lemma truthy_UserInfo: "truthy (UserInfo i n e f a l u)"
  by (simp add: UserInfo_def)

text \<open>
  C1.  For a present (truthy) user \<open>u\<close> and every \<open>status\<close>, given or left out,
  \<^verbatim>\<open>updateUserState(u, status)\<close> leaves the serialised \<open>u\<close> under \<^verbatim>\<open>userInfo\<close> and the
  text \<^verbatim>\<open>true\<close> under \<^verbatim>\<open>loginStatus\<close> in both scopes; for the absent user
  (\<^verbatim>\<open>null\<close>) and every \<open>status\<close> it leaves none of the four keys.
\<close>

theorem updateUserState_mirrors:
  "(truthy u \<longrightarrow>
      getItem ''userInfo'' (localStorage (updateUserState P u status s)) = Some (JSON_stringify P u)
    \<and> getItem ''loginStatus'' (localStorage (updateUserState P u status s)) = Some ''true''
    \<and> getItem ''userInfo'' (sessionStorage (updateUserState P u status s)) = Some (JSON_stringify P u)
    \<and> getItem ''loginStatus'' (sessionStorage (updateUserState P u status s)) = Some ''true'')
   \<and> getItem ''userInfo'' (localStorage (updateUserState P JNull status s)) = None
   \<and> getItem ''loginStatus'' (localStorage (updateUserState P JNull status s)) = None
   \<and> getItem ''userInfo'' (sessionStorage (updateUserState P JNull status s)) = None
   \<and> getItem ''loginStatus'' (sessionStorage (updateUserState P JNull status s)) = None"
  by (simp add: updateUserState_written updateUserState_removed)

text \<open>
  The empty object written with \<open>status = false\<close> into empty scopes, and \<^verbatim>\<open>null\<close>
  written with the status left out into the scopes of a signed-in store.
\<close>

theorem updateUserState_mirrors_witness:
  "truthy (JObj [])
   \<and> getItem ''userInfo''
        (localStorage (updateUserState sample_platform (JObj []) (Some False)
           (fresh empty_storage empty_storage []))) = Some ''{}''
   \<and> getItem ''loginStatus''
        (localStorage (updateUserState sample_platform (JObj []) (Some False)
           (fresh empty_storage empty_storage []))) = Some ''true''
   \<and> getItem ''userInfo''
        (sessionStorage (updateUserState sample_platform (JObj []) (Some False)
           (fresh empty_storage empty_storage []))) = Some ''{}''
   \<and> getItem ''loginStatus''
        (sessionStorage (updateUserState sample_platform (JObj []) (Some False)
           (fresh empty_storage empty_storage []))) = Some ''true''
   \<and> getItem ''userInfo'' (localStorage signed_in) = Some ''{}''
   \<and> getItem ''userInfo'' (localStorage (updateUserState sample_platform JNull None signed_in))
       = None
   \<and> getItem ''loginStatus''
        (sessionStorage (updateUserState sample_platform JNull None signed_in)) = None"
  using updateUserState_mirrors
          [of "JObj []" sample_platform "Some False" "fresh empty_storage empty_storage []"]
        updateUserState_mirrors [of "JObj []" sample_platform None signed_in]
  by (simp add: JSON_stringify_def sample_defs storage_defs)

section \<open>Restoring the session\<close>

lemma fresh_fields:
  "userInfo (fresh ls ss ck) = JNull" "loginStatus (fresh ls ss ck) = False"
  "isLoading (fresh ls ss ck) = False"
  "localStorage (fresh ls ss ck) = ls" "sessionStorage (fresh ls ss ck) = ss"
  "cookie (fresh ls ss ck) = ck"
  by (simp_all add: fresh_def)

text \<open>The setup function is the sequence that starts with \<^verbatim>\<open>initializeUserState\<close>.\<close>

lemma useUserStore_run: "useUserStore P ls ss ck = run P [InitializeUserState] (fresh ls ss ck)"
  by (simp add: useUserStore_def)

lemma initializeUserState_session:
  "restorable P (sessionStorage s) = Some v \<Longrightarrow>
     initializeUserState P s = updateUserState P v (Some True) s"
  by (auto simp: initializeUserState_def restorable_def JSON_parse_def Let_def
           split: option.splits if_splits)

lemma initializeUserState_local:
  "restorable P (sessionStorage s) = None \<Longrightarrow> restorable P (localStorage s) = Some v \<Longrightarrow>
     initializeUserState P s = updateUserState P v (Some True) s"
  by (auto simp: initializeUserState_def restorable_def JSON_parse_def Let_def
           split: option.splits if_splits)

text \<open>
  With no restorable scope the function either clears everything (the \<^verbatim>\<open>else\<close> of line
  80) or, after a parse failure of the persistent text, removes the two persistent keys
  and touches nothing else (lines 75 to 79).
\<close>

lemma initializeUserState_neither:
  "restorable P (sessionStorage s) = None \<Longrightarrow> restorable P (localStorage s) = None \<Longrightarrow>
     initializeUserState P s = updateUserState P JNull (Some False) s
   \<or> initializeUserState P s =
        s\<lparr>localStorage := removeItem ''loginStatus'' (removeItem ''userInfo'' (localStorage s))\<rparr>"
  by (auto simp: initializeUserState_def restorable_def JSON_parse_def Let_def
           split: option.splits if_splits)

lemma mirror_of_items:
  "getItem ''userInfo'' (mirror_of t) = Some t"
  "getItem ''loginStatus'' (mirror_of t) = Some ''true''"
  "getItem k empty_storage = None"
  by (simp_all add: sample_defs storage_defs)

lemma sample_json:
  "JSON_parse sample_platform ''{}'' = Some (JObj [])"
  "JSON_parse sample_platform ''{'' = None"
  "JSON_stringify sample_platform (JObj []) = ''{}''"
  by (simp_all add: JSON_parse_def JSON_stringify_def sample_platform_def)

lemma restorable_mirror_of:
  "restorable sample_platform (mirror_of ''{}'') = Some (JObj [])"
  "restorable sample_platform (mirror_of ''{'') = None"
  "restorable sample_platform empty_storage = None"
  by (simp_all add: restorable_def JSON_parse_def sample_defs storage_defs)

text \<open>
  C2.  On the refs as the setup function creates them and for every content of the two
  scopes: if the session scope is restorable, \<^verbatim>\<open>initializeUserState\<close> is the one call
  \<^verbatim>\<open>updateUserState(parsed, true)\<close>, so the store holds the parsed value with
  \<open>loginStatus = true\<close>, whatever the persistent scope holds; if only the persistent
  scope is restorable, the store holds its parsed value with \<open>loginStatus = true\<close>; if
  neither is, the store ends with \<open>userInfo = null\<close> and \<open>loginStatus = false\<close>.
\<close>

theorem initializeUserState_prefers_session:
  "(restorable P ss = Some v \<longrightarrow>
        initializeUserState P (fresh ls ss ck) = updateUserState P v (Some True) (fresh ls ss ck)
      \<and> userInfo (initializeUserState P (fresh ls ss ck)) = v
      \<and> loginStatus (initializeUserState P (fresh ls ss ck))
      \<and> (\<forall>ls'. userInfo (initializeUserState P (fresh ls' ss ck)) = v
               \<and> loginStatus (initializeUserState P (fresh ls' ss ck))))
   \<and> (restorable P ss = None \<and> restorable P ls = Some w \<longrightarrow>
        userInfo (initializeUserState P (fresh ls ss ck)) = w
      \<and> loginStatus (initializeUserState P (fresh ls ss ck)))
   \<and> (restorable P ss = None \<and> restorable P ls = None \<longrightarrow>
        userInfo (initializeUserState P (fresh ls ss ck)) = JNull
      \<and> \<not> loginStatus (initializeUserState P (fresh ls ss ck)))"
proof -
  have a: "initializeUserState P (fresh l ss ck) = updateUserState P v (Some True) (fresh l ss ck)"
    if "restorable P ss = Some v" for l
    using that initializeUserState_session [of P "fresh l ss ck" v] by (simp add: fresh_fields)
  have b: "initializeUserState P (fresh ls ss ck) = updateUserState P w (Some True) (fresh ls ss ck)"
    if "restorable P ss = None" "restorable P ls = Some w"
    using that initializeUserState_local [of P "fresh ls ss ck" w] by (simp add: fresh_fields)
  have c: "userInfo (initializeUserState P (fresh ls ss ck)) = JNull
         \<and> \<not> loginStatus (initializeUserState P (fresh ls ss ck))"
    if "restorable P ss = None" "restorable P ls = None"
    using that initializeUserState_neither [of P "fresh ls ss ck"]
    by (auto simp: fresh_fields updateUserState_refs)
  show ?thesis
    using a b c by (simp add: updateUserState_refs)
qed

text \<open>
  One store for each of the three cases: a session mirror beside a broken persistent
  one, a persistent mirror alone, and a broken persistent text alone.
\<close>

theorem initializeUserState_prefers_session_witness:
  "restorable sample_platform (mirror_of ''{}'') = Some (JObj [])
   \<and> userInfo (initializeUserState sample_platform
        (fresh (mirror_of ''{'') (mirror_of ''{}'') [])) = JObj []
   \<and> loginStatus (initializeUserState sample_platform
        (fresh (mirror_of ''{'') (mirror_of ''{}'') []))
   \<and> restorable sample_platform empty_storage = None
   \<and> userInfo (initializeUserState sample_platform
        (fresh (mirror_of ''{}'') empty_storage [])) = JObj []
   \<and> loginStatus (initializeUserState sample_platform
        (fresh (mirror_of ''{}'') empty_storage []))
   \<and> restorable sample_platform (mirror_of ''{'') = None
   \<and> userInfo (initializeUserState sample_platform
        (fresh (mirror_of ''{'') empty_storage [])) = JNull
   \<and> \<not> loginStatus (initializeUserState sample_platform
        (fresh (mirror_of ''{'') empty_storage []))"
  using initializeUserState_prefers_session
          [of sample_platform "mirror_of ''{}''" "JObj []" "mirror_of ''{''" "[]"]
        initializeUserState_prefers_session
          [of sample_platform empty_storage _ "mirror_of ''{}''" "[]" "JObj []"]
        initializeUserState_prefers_session
          [of sample_platform empty_storage _ "mirror_of ''{''" "[]"]
  by (simp add: restorable_mirror_of updateUserState_refs)

text \<open>
  C9.  On the refs as the setup function creates them: when the session scope is not
  restorable and the persistent scope holds a \<^verbatim>\<open>userInfo\<close> text, with the flag
  \<^verbatim>\<open>true\<close>, that does not parse, \<^verbatim>\<open>initializeUserState\<close> leaves neither persistent
  key and ends with \<open>userInfo = null\<close> and \<open>loginStatus = false\<close>.  The function has
  no error result: both calls of \<^verbatim>\<open>JSON.parse\<close> sit in a \<^verbatim>\<open>try\<close> whose \<^verbatim>\<open>catch\<close> does
  not rethrow.
\<close>

theorem initializeUserState_discards_malformed:
  "restorable P ss = None \<and> getItem ''userInfo'' ls = Some t
     \<and> getItem ''loginStatus'' ls = Some ''true'' \<and> JSON_parse P t = None \<longrightarrow>
     getItem ''userInfo'' (localStorage (initializeUserState P (fresh ls ss ck))) = None
   \<and> getItem ''loginStatus'' (localStorage (initializeUserState P (fresh ls ss ck))) = None
   \<and> userInfo (initializeUserState P (fresh ls ss ck)) = JNull
   \<and> \<not> loginStatus (initializeUserState P (fresh ls ss ck))"
proof (intro impI, elim conjE)
  let ?s = "fresh ls ss ck"
  assume h: "restorable P ss = None" "getItem ''userInfo'' ls = Some t"
    "getItem ''loginStatus'' ls = Some ''true''" "JSON_parse P t = None"
  then have "restorable P ls = None"
    by (simp add: restorable_def)
  with h(1) initializeUserState_neither [of P ?s]
  consider
      "initializeUserState P ?s = updateUserState P JNull (Some False) ?s"
    | "initializeUserState P ?s =
         ?s\<lparr>localStorage := removeItem ''loginStatus'' (removeItem ''userInfo'' ls)\<rparr>"
    by (auto simp: fresh_fields)
  then show "getItem ''userInfo'' (localStorage (initializeUserState P ?s)) = None
   \<and> getItem ''loginStatus'' (localStorage (initializeUserState P ?s)) = None
   \<and> userInfo (initializeUserState P ?s) = JNull
   \<and> \<not> loginStatus (initializeUserState P ?s)"
  proof cases
    case 1
    then show ?thesis
      by (simp add: updateUserState_removed updateUserState_refs)
  next
    case 2
    then show ?thesis
      by (simp add: fresh_fields storage_defs)
  qed
qed

text \<open>The persistent scope holds the text \<^verbatim>\<open>{\<close>, which is not JSON; the session scope is empty.\<close>

theorem initializeUserState_discards_malformed_witness:
  "restorable sample_platform empty_storage = None
   \<and> getItem ''userInfo'' (mirror_of ''{'') = Some ''{''
   \<and> getItem ''loginStatus'' (mirror_of ''{'') = Some ''true''
   \<and> JSON_parse sample_platform ''{'' = None
   \<and> getItem ''userInfo'' (localStorage (initializeUserState sample_platform
        (fresh (mirror_of ''{'') empty_storage []))) = None
   \<and> getItem ''loginStatus'' (localStorage (initializeUserState sample_platform
        (fresh (mirror_of ''{'') empty_storage []))) = None
   \<and> userInfo (initializeUserState sample_platform
        (fresh (mirror_of ''{'') empty_storage [])) = JNull
   \<and> \<not> loginStatus (initializeUserState sample_platform
        (fresh (mirror_of ''{'') empty_storage []))"
  using initializeUserState_discards_malformed
          [of sample_platform empty_storage "mirror_of ''{''" "''{''" "[]"]
  by (simp add: restorable_mirror_of mirror_of_items sample_json)

text \<open>
  C10.  When the session scope is restorable and the value restored is a user record
  (an object, so truthy), \<^verbatim>\<open>initializeUserState\<close> holds that record and has written its
  serialisation and the flag \<^verbatim>\<open>true\<close> into the persistent scope as well.
\<close>

theorem initializeUserState_promotes_session:
  "restorable P (sessionStorage s) = Some v \<and> truthy v \<longrightarrow>
     userInfo (initializeUserState P s) = v
   \<and> getItem ''userInfo'' (localStorage (initializeUserState P s)) = Some (JSON_stringify P v)
   \<and> getItem ''loginStatus'' (localStorage (initializeUserState P s)) = Some ''true''"
  by (simp add: initializeUserState_session updateUserState_written updateUserState_refs)

text \<open>A session mirror over an empty persistent scope.\<close>

theorem initializeUserState_promotes_session_witness:
  "restorable sample_platform (sessionStorage (fresh empty_storage (mirror_of ''{}'') []))
     = Some (JObj [])
   \<and> truthy (JObj [])
   \<and> getItem ''userInfo'' (localStorage (fresh empty_storage (mirror_of ''{}'') [])) = None
   \<and> userInfo (initializeUserState sample_platform
        (fresh empty_storage (mirror_of ''{}'') [])) = JObj []
   \<and> getItem ''userInfo'' (localStorage (initializeUserState sample_platform
        (fresh empty_storage (mirror_of ''{}'') []))) = Some ''{}''
   \<and> getItem ''loginStatus'' (localStorage (initializeUserState sample_platform
        (fresh empty_storage (mirror_of ''{}'') []))) = Some ''true''"
  using initializeUserState_promotes_session
          [of sample_platform "fresh empty_storage (mirror_of ''{}'') []" "JObj []"]
  by (simp add: restorable_mirror_of mirror_of_items sample_json fresh_fields)

section \<open>Sign-in\<close>

text \<open>
  C3, as the claim states it, fails: it promises both mirrors written for every
  response with \<open>success = true\<close>.  A signed-in store signs in again and the API answers
  \<open>success = true\<close> with \<^verbatim>\<open>null\<close> for the user: \<^verbatim>\<open>signin\<close> returns \<^verbatim>\<open>true\<close> and the
  store is authenticated, but the guard of line 35 has removed both persistent keys, and
  only the forced write of lines 115 and 116 fills the session scope, with the text
  \<^verbatim>\<open>null\<close>.
\<close>

theorem signin_without_user_counterexample:
  "apiUserSignin userless ''a'' ''b''
     = Resolves \<lparr>success = True, data = \<lparr>token = ''t'', refresh = None, user = JNull\<rparr>\<rparr>
   \<and> getItem ''userInfo'' (localStorage signed_in) = Some ''{}''
   \<and> fst (signin sample_platform userless (sample_credentials None) signed_in) = Inr True
   \<and> loginStatus (snd (signin sample_platform userless (sample_credentials None) signed_in))
   \<and> userInfo (snd (signin sample_platform userless (sample_credentials None) signed_in)) = JNull
   \<and> getItem ''userInfo''
        (localStorage (snd (signin sample_platform userless (sample_credentials None) signed_in)))
       = None
   \<and> getItem ''loginStatus''
        (localStorage (snd (signin sample_platform userless (sample_credentials None) signed_in)))
       = None
   \<and> getItem ''userInfo''
        (sessionStorage (snd (signin sample_platform userless (sample_credentials None) signed_in)))
       = Some ''null''"
  by (simp add: signin_def Let_def assign_cookie_def updateUserState_def JSON_stringify_def
        userless_def sample_defs storage_defs)

text \<open>
  C3, amended.  When the API resolves with \<open>success = true\<close>, \<^verbatim>\<open>signin\<close> returns
  \<^verbatim>\<open>true\<close>, having assigned to \<^verbatim>\<open>document.cookie\<close> the \<^verbatim>\<open>token\<close> cookie with
  \<^verbatim>\<open>path=/\<close> and the expiry (the UTC text of now plus thirty days when \<open>rememberMe\<close> is
  true, the empty text otherwise) and then, only for a non-empty \<open>refresh\<close> value, the
  \<^verbatim>\<open>refresh_token\<close> cookie with the same expiry, and nothing else; the store holds the
  returned user with \<open>loginStatus = true\<close> and \<open>isLoading = false\<close>; the session scope
  holds the serialised user and the flag \<^verbatim>\<open>true\<close>; and when the returned user is present
  (truthy, as every user record is), so does the persistent scope.
\<close>

theorem signin_success:
  assumes "apiUserSignin E (username d) (password d) = Resolves r" and "success r"
  shows "let expires = (if rememberMe d = Some True
                        then toUTCString P (now E + 30 * 24 * 60 * 60 * 1000) else []);
             s' = snd (signin P E d s)
         in fst (signin P E d s) = Inr True
          \<and> cookie s' =
              cookie s
              @ [''token='' @ token (data r) @ '';path=/;expires='' @ expires]
              @ (case refresh (data r) of
                   None \<Rightarrow> []
                 | Some x \<Rightarrow> if x = [] then []
                             else [''refresh_token='' @ x @ '';path=/;expires='' @ expires])
          \<and> userInfo s' = user (data r) \<and> loginStatus s' \<and> \<not> isLoading s'
          \<and> getItem ''userInfo'' (sessionStorage s') = Some (JSON_stringify P (user (data r)))
          \<and> getItem ''loginStatus'' (sessionStorage s') = Some ''true''
          \<and> (truthy (user (data r)) \<longrightarrow>
                getItem ''userInfo'' (localStorage s') = Some (JSON_stringify P (user (data r)))
              \<and> getItem ''loginStatus'' (localStorage s') = Some ''true'')"
  using assms
  by (simp add: signin_def Let_def assign_cookie_def updateUserState_def storage_defs
           split: option.splits)

text \<open>
  A sign-in with \<open>rememberMe\<close> and a refresh value at the epoch, and one without either,
  both into a store with empty scopes and no cookie.
\<close>

theorem signin_success_witness:
  "apiUserSignin (accepting (Some ''r'')) ''a'' ''b''
     = Resolves \<lparr>success = True, data = \<lparr>token = ''t'', refresh = Some ''r'', user = JObj []\<rparr>\<rparr>
   \<and> fst (signin sample_platform (accepting (Some ''r'')) (sample_credentials (Some True))
        (fresh empty_storage empty_storage [])) = Inr True
   \<and> cookie (snd (signin sample_platform (accepting (Some ''r'')) (sample_credentials (Some True))
        (fresh empty_storage empty_storage [])))
       = [''token=t;path=/;expires=Sat, 31 Jan 1970 00:00:00 GMT'',
          ''refresh_token=r;path=/;expires=Sat, 31 Jan 1970 00:00:00 GMT'']
   \<and> cookie (snd (signin sample_platform (accepting None) (sample_credentials None)
        (fresh empty_storage empty_storage [])))
       = [''token=t;path=/;expires='']
   \<and> userInfo (snd (signin sample_platform (accepting None) (sample_credentials None)
        (fresh empty_storage empty_storage []))) = JObj []
   \<and> loginStatus (snd (signin sample_platform (accepting None) (sample_credentials None)
        (fresh empty_storage empty_storage [])))
   \<and> getItem ''userInfo'' (sessionStorage (snd (signin sample_platform (accepting None)
        (sample_credentials None) (fresh empty_storage empty_storage [])))) = Some ''{}''
   \<and> getItem ''loginStatus'' (sessionStorage (snd (signin sample_platform (accepting None)
        (sample_credentials None) (fresh empty_storage empty_storage [])))) = Some ''true''
   \<and> truthy (JObj [])
   \<and> getItem ''userInfo'' (localStorage (snd (signin sample_platform (accepting None)
        (sample_credentials None) (fresh empty_storage empty_storage [])))) = Some ''{}''
   \<and> getItem ''loginStatus'' (localStorage (snd (signin sample_platform (accepting None)
        (sample_credentials None) (fresh empty_storage empty_storage [])))) = Some ''true''"
  using signin_success
          [of "accepting (Some ''r'')" "sample_credentials (Some True)"
              "\<lparr>success = True, data = \<lparr>token = ''t'', refresh = Some ''r'', user = JObj []\<rparr>\<rparr>"
              sample_platform "fresh empty_storage empty_storage []"]
        signin_success
          [of "accepting None" "sample_credentials None"
              "\<lparr>success = True, data = \<lparr>token = ''t'', refresh = None, user = JObj []\<rparr>\<rparr>"
              sample_platform "fresh empty_storage empty_storage []"]
  by (simp add: Let_def JSON_stringify_def fresh_fields sample_defs)

text \<open>
  C4.  When the API resolves with \<open>success = false\<close>, \<^verbatim>\<open>signin\<close> returns \<^verbatim>\<open>false\<close> and
  the store is the one before the call with \<open>isLoading = false\<close>: the user, the
  \<open>loginStatus\<close>, both scopes and the cookies are what they were.
\<close>

theorem signin_refused:
  assumes "apiUserSignin E (username d) (password d) = Resolves r" and "\<not> success r"
  shows "signin P E d s = (Inr False, s\<lparr>isLoading := False\<rparr>)"
  using assms by (simp add: signin_def Let_def)

text \<open>A refused sign-in on a signed-in store changes nothing.\<close>

theorem signin_refused_witness:
  "apiUserSignin refusing ''a'' ''b''
     = Resolves \<lparr>success = False, data = \<lparr>token = [], refresh = None, user = JNull\<rparr>\<rparr>
   \<and> signin sample_platform refusing (sample_credentials (Some True)) signed_in
       = (Inr False, signed_in)"
  using signin_refused
          [of refusing "sample_credentials (Some True)"
              "\<lparr>success = False, data = \<lparr>token = [], refresh = None, user = JNull\<rparr>\<rparr>"
              sample_platform signed_in]
  by (simp add: sample_defs)

text \<open>A failure of the API is rethrown, with \<open>isLoading\<close> cleared and nothing else changed.\<close>

lemma signin_rethrows:
  "apiUserSignin E (username d) (password d) = Rejects e \<or>
   apiUserSignin E (username d) (password d) = Throws e \<Longrightarrow>
   signin P E d s = (Inl e, s\<lparr>isLoading := False\<rparr>)"
  by (auto simp: signin_def Let_def)

section \<open>Sign-out\<close>

text \<open>
  C5.  Whatever the sign-out API, the notification and the navigation do, \<^verbatim>\<open>logout\<close>
  returns \<^verbatim>\<open>true\<close> (never an error), the store holds \<open>userInfo = null\<close> and
  \<open>loginStatus = false\<close>, none of the four mirror keys is left, and exactly the three
  expiring assignments for \<^verbatim>\<open>token\<close>, \<^verbatim>\<open>refresh_token\<close> and \<^verbatim>\<open>sessionid\<close> (empty
  value, epoch expiry, \<^verbatim>\<open>path=/\<close>) have been made to \<^verbatim>\<open>document.cookie\<close>.
\<close>

theorem logout_always_succeeds:
  "fst (logout P E s) = Inr True
   \<and> userInfo (snd (logout P E s)) = JNull
   \<and> \<not> loginStatus (snd (logout P E s))
   \<and> getItem ''userInfo'' (localStorage (snd (logout P E s))) = None
   \<and> getItem ''loginStatus'' (localStorage (snd (logout P E s))) = None
   \<and> getItem ''userInfo'' (sessionStorage (snd (logout P E s))) = None
   \<and> getItem ''loginStatus'' (sessionStorage (snd (logout P E s))) = None
   \<and> cookie (snd (logout P E s)) =
       cookie s @ [''token=;expires=Thu, 01 Jan 1970 00:00:00 GMT;path=/'',
                   ''refresh_token=;expires=Thu, 01 Jan 1970 00:00:00 GMT;path=/'',
                   ''sessionid=;expires=Thu, 01 Jan 1970 00:00:00 GMT;path=/'']"
  by (simp add: logout_def Let_def assign_cookie_def updateUserState_def storage_defs
        split: outcome.splits option.splits)

text \<open>A signed-in store signs out while the API call throws.\<close>

theorem logout_always_succeeds_witness:
  "loginStatus signed_in
   \<and> getItem ''userInfo'' (sessionStorage signed_in) = Some ''{}''
   \<and> fst (logout sample_platform failing_logout signed_in) = Inr True
   \<and> userInfo (snd (logout sample_platform failing_logout signed_in)) = JNull
   \<and> \<not> loginStatus (snd (logout sample_platform failing_logout signed_in))
   \<and> getItem ''userInfo'' (sessionStorage (snd (logout sample_platform failing_logout signed_in)))
       = None
   \<and> cookie (snd (logout sample_platform failing_logout signed_in)) =
       [''token=t;path=/;expires='',
        ''token=;expires=Thu, 01 Jan 1970 00:00:00 GMT;path=/'',
        ''refresh_token=;expires=Thu, 01 Jan 1970 00:00:00 GMT;path=/'',
        ''sessionid=;expires=Thu, 01 Jan 1970 00:00:00 GMT;path=/'']"
  using logout_always_succeeds [of sample_platform failing_logout signed_in]
  by (simp add: sample_defs storage_defs)

section \<open>Session check and the direct setter\<close>

text \<open>
  C6.  \<^verbatim>\<open>checkLoginStatus\<close> never returns an error: when the API call fails (a rejected
  promise or a throw) it returns \<^verbatim>\<open>false\<close> and the store holds \<open>loginStatus = false\<close>
  and \<open>userInfo = null\<close>; when the call resolves, it returns the response's
  \<^verbatim>\<open>isAuthenticated\<close>.
\<close>

theorem checkLoginStatus_never_raises:
  "(api = Rejects e \<or> api = Throws e \<longrightarrow>
       fst (checkLoginStatus api s) = Inr False
     \<and> \<not> loginStatus (snd (checkLoginStatus api s))
     \<and> userInfo (snd (checkLoginStatus api s)) = JNull)
   \<and> (api = Resolves (CheckResponse su ia u) \<longrightarrow> fst (checkLoginStatus api s) = Inr ia)
   \<and> (\<exists>b. fst (checkLoginStatus api s) = Inr b)"
  by (auto simp: checkLoginStatus_def Let_def split: outcome.splits check_response.splits)

text \<open>A signed-in store whose session check throws, and one whose check resolves.\<close>

theorem checkLoginStatus_never_raises_witness:
  "fst (checkLoginStatus (Throws (Error ''offline'')) signed_in) = Inr False
   \<and> \<not> loginStatus (snd (checkLoginStatus (Throws (Error ''offline'')) signed_in))
   \<and> userInfo (snd (checkLoginStatus (Throws (Error ''offline'')) signed_in)) = JNull
   \<and> fst (checkLoginStatus (Resolves (CheckResponse True True (JObj []))) signed_in) = Inr True"
  using checkLoginStatus_never_raises
          [of "Throws (Error ''offline'')" "Error ''offline''" signed_in]
        checkLoginStatus_never_raises
          [of "Resolves (CheckResponse True True (JObj []))" _ signed_in True True "JObj []"]
  by simp

text \<open>
  C7.  \<^verbatim>\<open>checkLoginStatus\<close>, whatever the API does, and \<^verbatim>\<open>setLoginStatus\<close>, whatever its
  arguments, leave both storage scopes and the cookies exactly as they were.
\<close>

theorem check_and_set_leave_mirrors:
  "localStorage (snd (checkLoginStatus api s)) = localStorage s
   \<and> sessionStorage (snd (checkLoginStatus api s)) = sessionStorage s
   \<and> cookie (snd (checkLoginStatus api s)) = cookie s
   \<and> localStorage (setLoginStatus status u s) = localStorage s
   \<and> sessionStorage (setLoginStatus status u s) = sessionStorage s
   \<and> cookie (setLoginStatus status u s) = cookie s"
  by (simp add: checkLoginStatus_def setLoginStatus_def Let_def
        split: outcome.splits check_response.splits)

text \<open>A signed-in store is told it is signed out: the refs change, the mirrors stay.\<close>

theorem check_and_set_leave_mirrors_witness:
  "\<not> loginStatus (snd (checkLoginStatus (Resolves (CheckResponse True False JUndefined)) signed_in))
   \<and> sessionStorage (snd (checkLoginStatus (Resolves (CheckResponse True False JUndefined))
        signed_in)) = mirror_of ''{}''
   \<and> cookie (snd (checkLoginStatus (Resolves (CheckResponse True False JUndefined)) signed_in))
       = [''token=t;path=/;expires='']
   \<and> \<not> loginStatus (setLoginStatus False JUndefined signed_in)
   \<and> localStorage (setLoginStatus False JUndefined signed_in) = mirror_of ''{}''
   \<and> cookie (setLoginStatus False JUndefined signed_in) = [''token=t;path=/;expires='']"
proof -
  let ?api = "Resolves (CheckResponse True False JUndefined)"
  have refs: "\<not> loginStatus (snd (checkLoginStatus ?api signed_in))"
    "\<not> loginStatus (setLoginStatus False JUndefined signed_in)"
    by (simp_all add: checkLoginStatus_def setLoginStatus_def)
  have before: "localStorage signed_in = mirror_of ''{}''"
    "sessionStorage signed_in = mirror_of ''{}''"
    "cookie signed_in = [''token=t;path=/;expires='']"
    by (simp_all add: signed_in_def)
  from check_and_set_leave_mirrors [of ?api signed_in False JUndefined] refs before
  show ?thesis
    by simp
qed

section \<open>The invariant\<close>

lemma exec_invariant:
  assumes "consistent P s x" and "invariant s"
  shows "invariant (exec P x s)"
proof (cases x)
  case (Signin E d)
  with assms show ?thesis
    by (auto simp: invariant_def signin_def Let_def assign_cookie_def updateUserState_def
             split: outcome.splits option.splits if_splits)
next
  case (Logout E)
  then show ?thesis
    by (auto simp: invariant_def logout_def Let_def assign_cookie_def updateUserState_def
             split: outcome.splits option.splits)
next
  case (CheckLoginStatus api)
  with assms show ?thesis
    by (auto simp: invariant_def checkLoginStatus_def Let_def
             split: outcome.splits check_response.splits if_splits)
next
  case (SetLoginStatus status u)
  with assms show ?thesis
    by (auto simp: invariant_def setLoginStatus_def)
next
  case (UpdateUserState u status)
  with assms show ?thesis
    by (auto simp: invariant_def updateUserState_refs split: option.splits)
next
  case InitializeUserState
  show ?thesis
  proof (cases "restorable P (sessionStorage s)")
    case (Some v)
    with assms InitializeUserState show ?thesis
      by (simp add: initializeUserState_session invariant_def updateUserState_refs)
  next
    case None
    show ?thesis
    proof (cases "restorable P (localStorage s)")
      case (Some v)
      with assms None InitializeUserState show ?thesis
        by (simp add: initializeUserState_local invariant_def updateUserState_refs)
    next
      case n: None
      from initializeUserState_neither [OF None n] assms InitializeUserState show ?thesis
        by (auto simp: invariant_def updateUserState_refs)
    qed
  qed
qed

lemma run_invariant:
  "admissible P s xs \<Longrightarrow> invariant s \<Longrightarrow> invariant (run P xs s)"
  by (induction xs arbitrary: s) (auto intro: exec_invariant)

text \<open>
  C8, as the claim states it, fails: the setup function runs on empty scopes and then
  \<^verbatim>\<open>setLoginStatus(true)\<close> is called.  The store is authenticated and has no user.
\<close>

theorem authenticated_without_user_counterexample:
  "loginStatus (run sample_platform [InitializeUserState, SetLoginStatus True JUndefined]
      (fresh empty_storage empty_storage []))
   \<and> userInfo (run sample_platform [InitializeUserState, SetLoginStatus True JUndefined]
      (fresh empty_storage empty_storage [])) = JNull"
  by (simp add: setLoginStatus_def)

text \<open>
  C8, amended.  From the refs as the setup function creates them, every sequence of
  operations in which each call is consistent (no setter is handed \<^verbatim>\<open>true\<close> with an
  absent user, no API answers so, and no restored text parses to a falsy value) ends in
  a store where \<open>loginStatus = true\<close> implies that the user is present.
\<close>

theorem authenticated_has_user:
  assumes "admissible P (fresh ls ss ck) xs"
  shows "loginStatus (run P xs (fresh ls ss ck)) \<longrightarrow> truthy (userInfo (run P xs (fresh ls ss ck)))"
proof -
  have "invariant (fresh ls ss ck)"
    by (simp add: invariant_def fresh_fields)
  with assms have "invariant (run P xs (fresh ls ss ck))"
    by (rule run_invariant)
  then show ?thesis
    by (simp add: invariant_def)
qed

text \<open>
  The setup function restores a session mirror, the session check confirms it, the user
  signs out and signs in again: the sequence is admissible and ends authenticated, with
  a user.
\<close>

theorem authenticated_has_user_witness:
  "admissible sample_platform (fresh empty_storage (mirror_of ''{}'') [])
     [InitializeUserState, CheckLoginStatus (Resolves (CheckResponse True True (JObj []))),
      Logout failing_logout, Signin (accepting None) (sample_credentials None)]
   \<and> loginStatus (run sample_platform
        [InitializeUserState, CheckLoginStatus (Resolves (CheckResponse True True (JObj []))),
         Logout failing_logout, Signin (accepting None) (sample_credentials None)]
        (fresh empty_storage (mirror_of ''{}'') []))
   \<and> truthy (userInfo (run sample_platform
        [InitializeUserState, CheckLoginStatus (Resolves (CheckResponse True True (JObj []))),
         Logout failing_logout, Signin (accepting None) (sample_credentials None)]
        (fresh empty_storage (mirror_of ''{}'') [])))"
proof -
  let ?xs = "[InitializeUserState, CheckLoginStatus (Resolves (CheckResponse True True (JObj []))),
      Logout failing_logout, Signin (accepting None) (sample_credentials None)]"
  let ?s = "fresh empty_storage (mirror_of ''{}'') []"
  have a: "admissible sample_platform ?s ?xs"
    by (simp add: restorable_mirror_of fresh_fields sample_credentials_def accepting_def)
  have l: "loginStatus (run sample_platform ?xs ?s)"
    by (simp add: signin_def Let_def assign_cookie_def updateUserState_refs
          sample_credentials_def accepting_def)
  from authenticated_has_user [OF a] a l show ?thesis
    by blast
qed

end
